theory Spec2Isabelle
  imports Complex_Main "HOL-Library.AList" "HOL-Library.Sublist"
begin

section \<open>Data model\<close>

text \<open>
  The statistics engine of \<^verbatim>\<open>src/data_processor.py\<close> works on data frames handed over by
  the loader. A data frame is modelled as a table with an ordered list of column names and an
  ordered list of rows. A row carries its index label (the item name) and its cells. A cell
  holds a finite number or is missing (the loader reads \<^verbatim>\<open>-\<close> as NaN): the cell of a column
  is looked up in an association list, and a column with no entry in a row is missing there.

  Numbers are exact reals: comparisons of floating-point numbers are exact, so the filters are
  modelled without loss. The arithmetic of the library (sums, means, quantiles, quotients,
  rounding) is not computed by the model: it is a parameter, see the section on the library.
  Signed zeros and infinite cells are outside the model. So are columns of text and frames in
  which a column name occurs twice: every column is a numeric column, known by its name.
\<close>

record row =
  item :: string
  vals :: "(string \<times> real) list"

record dataframe =
  columns :: "string list"
  rows :: "row list"

text \<open>The exceptions the engine can raise, with their message or key.\<close>

datatype error = KeyError string | ValueError string | TypeError string

text \<open>
  A call either raises or returns normally; a normal return carries the lines printed to
  standard output, in order, and the value returned.
\<close>

type_synonym 'a result = "error + (string list \<times> 'a)"

definition cell :: "row \<Rightarrow> string \<Rightarrow> real option" where
  "cell r n = map_of (vals r) n"

text \<open>\<^verbatim>\<open>df[nutrient]\<close>: the column as a series, or \<^verbatim>\<open>KeyError\<close> when there is no such column.\<close>

definition column :: "dataframe \<Rightarrow> string \<Rightarrow> real option list" where
  "column df n = map (\<lambda>r. cell r n) (rows df)"

definition getitem :: "dataframe \<Rightarrow> string \<Rightarrow> error + real option list" where
  "getitem df n = (if n \<in> set (columns df) then Inr (column df n) else Inl (KeyError n))"

text \<open>
  Element-wise comparisons of a series with a number give a boolean mask. A missing value
  compares false under every comparison.
\<close>

definition series_gt :: "real option list \<Rightarrow> real \<Rightarrow> bool list" where
  "series_gt s x = map (\<lambda>c. case c of None \<Rightarrow> False | Some v \<Rightarrow> v > x) s"

definition series_lt :: "real option list \<Rightarrow> real \<Rightarrow> bool list" where
  "series_lt s x = map (\<lambda>c. case c of None \<Rightarrow> False | Some v \<Rightarrow> v < x) s"

definition series_eq :: "real option list \<Rightarrow> real \<Rightarrow> bool list" where
  "series_eq s x = map (\<lambda>c. case c of None \<Rightarrow> False | Some v \<Rightarrow> v = x) s"

definition series_ge :: "real option list \<Rightarrow> real \<Rightarrow> bool list" where
  "series_ge s x = map (\<lambda>c. case c of None \<Rightarrow> False | Some v \<Rightarrow> v \<ge> x) s"

definition series_le :: "real option list \<Rightarrow> real \<Rightarrow> bool list" where
  "series_le s x = map (\<lambda>c. case c of None \<Rightarrow> False | Some v \<Rightarrow> v \<le> x) s"

text \<open>\<^verbatim>\<open>Series.between(left, right)\<close>, both bounds inclusive: the conjunction of two masks.\<close>

definition series_between :: "real option list \<Rightarrow> real \<Rightarrow> real \<Rightarrow> bool list" where
  "series_between s left right = map2 (\<and>) (series_ge s left) (series_le s right)"

text \<open>\<^verbatim>\<open>df[mask]\<close>: a new frame with the rows at which the mask is true, columns as before.\<close>

definition bool_index :: "dataframe \<Rightarrow> bool list \<Rightarrow> dataframe" where
  "bool_index df m = df\<lparr>rows := map snd (filter fst (zip m (rows df)))\<rparr>"

text \<open>
  The operand of a filter is a number, or a pair for \<^verbatim>\<open>between\<close>. A number under
  \<^verbatim>\<open>between\<close> makes \<^verbatim>\<open>value[0]\<close> raise \<^verbatim>\<open>TypeError\<close>.
\<close>

datatype operand = Scalar real | Bounds real real

definition pair_of :: "operand \<Rightarrow> error + real \<times> real" where
  "pair_of v = (case v of Bounds lo hi \<Rightarrow> Inr (lo, hi)
                | Scalar _ \<Rightarrow>
                    Inl (TypeError (CHR 0x27 # ''float'' @ CHR 0x27 # '' object is not subscriptable'')))"

text \<open>
  A pair under \<open>>\<close>, \<open><\<close> or \<open>==\<close> is outside the documented operand types. The library
  then broadcasts the pair against the column: a column of exactly two cells is compared cell
  by cell with the two members, and every other length is refused with \<^verbatim>\<open>ValueError\<close>.
\<close>

fun show_nat :: "nat \<Rightarrow> string" where
  "show_nat n =
     (if n < 10 then [char_of (48 + n)]
      else show_nat (n div 10) @ [char_of (48 + n mod 10)])"

definition pair_mask ::
  "(real \<Rightarrow> real \<Rightarrow> bool) \<Rightarrow> real option list \<Rightarrow> real \<Rightarrow> real \<Rightarrow> error + bool list" where
  "pair_mask rel s a b =
     (case s of
        [c0, c1] \<Rightarrow>
          Inr [case c0 of None \<Rightarrow> False | Some v \<Rightarrow> rel v a,
               case c1 of None \<Rightarrow> False | Some v \<Rightarrow> rel v b]
      | [c0] \<Rightarrow> Inl (ValueError ''Length of values (2) does not match length of index (1)'')
      | _ \<Rightarrow>
          Inl (ValueError (''operands could not be broadcast together with shapes (''
                 @ show_nat (length s) @ '',) (2,) '')))"

definition compare_with ::
  "(real option list \<Rightarrow> real \<Rightarrow> bool list) \<Rightarrow> (real \<Rightarrow> real \<Rightarrow> bool) \<Rightarrow>
   real option list \<Rightarrow> operand \<Rightarrow> error + bool list" where
  "compare_with series_op rel s value =
     (case value of Scalar x \<Rightarrow> Inr (series_op s x) | Bounds a b \<Rightarrow> pair_mask rel s a b)"

section \<open>Filtering\<close>

text \<open>
  \<^verbatim>\<open>DataProcessor.filter_data\<close> (static). The column is fetched before the operand is
  inspected, so an unknown column raises first. An operator other than the four falls through
  to the \<^verbatim>\<open>print\<close> and returns the frame it was given.
\<close>

definition filter_data :: "dataframe \<Rightarrow> string \<Rightarrow> string \<Rightarrow> operand \<Rightarrow> dataframe result" where
  "filter_data df nutrient operator value =
     (if operator = ''>'' then
        (case getitem df nutrient of Inl e \<Rightarrow> Inl e
         | Inr s \<Rightarrow> (case compare_with series_gt (\<lambda>v x. v > x) s value of Inl e \<Rightarrow> Inl e
                     | Inr m \<Rightarrow> Inr ([], bool_index df m)))
      else if operator = ''<'' then
        (case getitem df nutrient of Inl e \<Rightarrow> Inl e
         | Inr s \<Rightarrow> (case compare_with series_lt (\<lambda>v x. v < x) s value of Inl e \<Rightarrow> Inl e
                     | Inr m \<Rightarrow> Inr ([], bool_index df m)))
      else if operator = ''=='' then
        (case getitem df nutrient of Inl e \<Rightarrow> Inl e
         | Inr s \<Rightarrow> (case compare_with series_eq (\<lambda>v x. v = x) s value of Inl e \<Rightarrow> Inl e
                     | Inr m \<Rightarrow> Inr ([], bool_index df m)))
      else if operator = ''between'' then
        (case getitem df nutrient of Inl e \<Rightarrow> Inl e
         | Inr s \<Rightarrow> (case pair_of value of Inl e \<Rightarrow> Inl e
                     | Inr (lo, hi) \<Rightarrow> Inr ([], bool_index df (series_between s lo hi))))
      else Inr ([''operator not recognized.''], df))"

text \<open>The four recognised operators, and the operands that fit them.\<close>

definition recognized :: "string set" where
  "recognized = {''>'', ''<'', ''=='', ''between''}"

definition operand_ok :: "string \<Rightarrow> operand \<Rightarrow> bool" where
  "operand_ok operator value =
     (case value of Scalar _ \<Rightarrow> operator \<in> {''>'', ''<'', ''==''}
      | Bounds _ _ \<Rightarrow> operator = ''between'')"

text \<open>The predicate a criterion puts on one cell.\<close>

definition satisfies :: "string \<Rightarrow> operand \<Rightarrow> real option \<Rightarrow> bool" where
  "satisfies operator value c =
     (case c of None \<Rightarrow> False
      | Some v \<Rightarrow>
          (case value of
             Scalar x \<Rightarrow> (operator = ''>'' \<and> v > x) \<or> (operator = ''<'' \<and> v < x)
                          \<or> (operator = ''=='' \<and> v = x)
           | Bounds lo hi \<Rightarrow> operator = ''between'' \<and> lo \<le> v \<and> v \<le> hi))"

section \<open>The engine state\<close>

text \<open>
  \<^verbatim>\<open>self.datasets\<close> is a dictionary, kept as an association list in insertion order
  (assigning to a key that is present replaces its value in place, a new key goes to the end);
  \<^verbatim>\<open>self.categories\<close> is a list.
\<close>

record processor =
  datasets :: "(string \<times> dataframe) list"
  categories :: "string list"

definition init :: processor where
  "init = \<lparr>datasets = [], categories = []\<rparr>"

text \<open>\<^verbatim>\<open>add_datasets\<close>: stores the frame under the category and appends the category.\<close>

definition add_datasets :: "string \<Rightarrow> dataframe \<Rightarrow> processor \<Rightarrow> processor" where
  "add_datasets catergory df s =
     s\<lparr>datasets := AList.update catergory df (datasets s),
       categories := categories s @ [catergory]\<rparr>"

text \<open>A sequence of registrations, from the first to the last.\<close>

definition register_all :: "(string \<times> dataframe) list \<Rightarrow> processor \<Rightarrow> processor" where
  "register_all calls s = foldl (\<lambda>s (c, df). add_datasets c df s) s calls"

text \<open>
  \<^verbatim>\<open>filter_dataset\<close>: a method that reads the state; the state it leaves behind is returned
  with the result.
\<close>

definition filter_dataset ::
  "string \<Rightarrow> string \<Rightarrow> string \<Rightarrow> operand \<Rightarrow> processor \<Rightarrow> dataframe result \<times> processor" where
  "filter_dataset catergory nutrient operator value s =
     (if catergory \<notin> set (categories s) then
        (Inl (ValueError (CHR 0x27 # catergory @ CHR 0x27 # '' not found in datasets'')), s)
      else
        (case map_of (datasets s) catergory of
           None \<Rightarrow> (Inl (KeyError catergory), s)
         | Some df \<Rightarrow> (filter_data df nutrient operator value, s)))"

text \<open>
  \<^verbatim>\<open>filter_datasets\<close>: the loop over the chosen categories (all of \<^verbatim>\<open>self.categories\<close> by
  default), collecting the filtered frames in a dictionary and the printed lines in order.
\<close>

fun filter_loop ::
  "processor \<Rightarrow> string \<Rightarrow> string \<Rightarrow> operand \<Rightarrow> string list \<Rightarrow>
   string list \<times> (string \<times> dataframe) list \<Rightarrow> (string \<times> dataframe) list result" where
  "filter_loop s nutrient operator value [] acc = Inr acc"
| "filter_loop s nutrient operator value (c # cs) (out, filtered) =
     (case map_of (datasets s) c of
        None \<Rightarrow> Inl (KeyError c)
      | Some df \<Rightarrow>
          (case filter_data df nutrient operator value of
             Inl e \<Rightarrow> Inl e
           | Inr (out', r) \<Rightarrow>
               filter_loop s nutrient operator value cs (out @ out', AList.update c r filtered)))"

definition filter_datasets ::
  "string \<Rightarrow> string \<Rightarrow> operand \<Rightarrow> string list option \<Rightarrow> processor \<Rightarrow>
   (string \<times> dataframe) list result \<times> processor" where
  "filter_datasets nutrient operator value cats s =
     (filter_loop s nutrient operator value
        (case cats of None \<Rightarrow> categories s | Some cs \<Rightarrow> cs) ([], []), s)"

section \<open>The data-frame library\<close>

text \<open>
  The values a result dictionary holds: an integer, a float, NaN, or an infinity.
\<close>

datatype pyval = IntV int | FloatV real | NaNV | PosInfV | NegInfV

text \<open>
  The engine computes no statistic itself: it calls the aggregates of the data-frame library
  on a column, \<^verbatim>\<open>round(x, 2)\<close> on their results, and the division of two library scalars.
  These work on machine numbers (doubles that round and overflow, 64-bit integers that wrap
  around), so they are parameters of the model: a record of the functions called, about which
  nothing is assumed. A function on a column is given the cells of the column; what else the
  library's result depends on (the storage type of the column, the sign of a zero) is outside
  the model. \<^verbatim>\<open>describe()\<close> gives the summary table of a frame.
\<close>

record library =
  lib_sum :: "real option list \<Rightarrow> pyval"
  lib_mean :: "real option list \<Rightarrow> pyval"
  lib_median :: "real option list \<Rightarrow> pyval"
  lib_std :: "real option list \<Rightarrow> pyval"
  lib_min :: "real option list \<Rightarrow> pyval"
  lib_max :: "real option list \<Rightarrow> pyval"
  lib_quantile :: "real option list \<Rightarrow> real \<Rightarrow> pyval"
  lib_round2 :: "pyval \<Rightarrow> pyval"
  lib_divide :: "pyval \<Rightarrow> pyval \<Rightarrow> pyval"
  lib_describe :: "dataframe \<Rightarrow> (string \<times> (string \<times> pyval) list) list"

text \<open>\<^verbatim>\<open>Series.count()\<close> is exact: the number of cells that are not missing.\<close>

fun dropna :: "real option list \<Rightarrow> real list" where
  "dropna [] = []"
| "dropna (None # s) = dropna s"
| "dropna (Some v # s) = v # dropna s"

definition series_count :: "real option list \<Rightarrow> nat" where
  "series_count s = length (dropna s)"

section \<open>Descriptive statistics\<close>

text \<open>
  \<^verbatim>\<open>DataFrame.describe()\<close> refuses a frame that has no column, and otherwise returns the
  library's summary table.
\<close>

definition df_describe ::
  "library \<Rightarrow> dataframe \<Rightarrow> error + (string \<times> (string \<times> pyval) list) list" where
  "df_describe lib df =
     (if columns df = [] then Inl (ValueError ''Cannot describe a DataFrame without columns'')
      else Inr (lib_describe lib df))"

record stats_entry =
  describe :: "(string \<times> (string \<times> pyval) list) list"
  ratio :: "(string \<times> pyval) list"

text \<open>
  The ratio dictionary of one category: empty, then filled with the three quotients of column
  sums when the three columns are there.
\<close>

definition ratios :: "library \<Rightarrow> dataframe \<Rightarrow> (string \<times> pyval) list" where
  "ratios lib nutrient =
     (if ''Fat'' \<in> set (columns nutrient) \<and> ''Protein'' \<in> set (columns nutrient)
         \<and> ''Carb'' \<in> set (columns nutrient) then
        (let fat_sum = lib_sum lib (column nutrient ''Fat'');
             protein_sum = lib_sum lib (column nutrient ''Protein'');
             carb_sum = lib_sum lib (column nutrient ''Carb'') in
         AList.update ''carb_to_fat'' (lib_divide lib carb_sum fat_sum)
           (AList.update ''protein_to_carb'' (lib_divide lib protein_sum carb_sum)
              (AList.update ''fat_to_protein'' (lib_divide lib fat_sum protein_sum) [])))
      else [])"

text \<open>\<^verbatim>\<open>calculate_descriptive_stats\<close>: the loop over \<^verbatim>\<open>self.datasets.items()\<close>.\<close>

fun stats_loop ::
  "library \<Rightarrow> (string \<times> dataframe) list \<Rightarrow> (string \<times> stats_entry) list \<Rightarrow>
   error + (string \<times> stats_entry) list" where
  "stats_loop lib [] stats = Inr stats"
| "stats_loop lib ((category, nutrient) # rest) stats =
     (case df_describe lib nutrient of
        Inl e \<Rightarrow> Inl e
      | Inr d \<Rightarrow>
          stats_loop lib rest
            (AList.update category \<lparr>describe = d, ratio = ratios lib nutrient\<rparr> stats))"

definition calculate_descriptive_stats ::
  "library \<Rightarrow> processor \<Rightarrow> (string \<times> stats_entry) list result \<times> processor" where
  "calculate_descriptive_stats lib s =
     (case stats_loop lib (datasets s) [] of
        Inl e \<Rightarrow> (Inl e, s)
      | Inr stats \<Rightarrow> (Inr ([], stats), s))"

section \<open>Comparison\<close>

text \<open>
  The nutrients compared by default: the intersection of the column sets of all frames.
  Python lists the members of that set in an unspecified order; the model lists them in the
  order of the first frame's columns, and nothing below depends on the order.
\<close>

fun common_columns :: "string list list \<Rightarrow> string list" where
  "common_columns [] = []"
| "common_columns (cs # css) = filter (\<lambda>n. \<forall>c \<in> set css. n \<in> set c) (remdups cs)"

text \<open>The nine-field record of one nutrient in one category, and the record of an absent one.\<close>

definition nine_stats :: "library \<Rightarrow> real option list \<Rightarrow> (string \<times> pyval) list" where
  "nine_stats lib s =
     [(''count'', IntV (int (series_count s))),
      (''mean'', lib_round2 lib (lib_mean lib s)),
      (''median'', lib_round2 lib (lib_median lib s)),
      (''std'', lib_round2 lib (lib_std lib s)),
      (''min'', lib_round2 lib (lib_min lib s)),
      (''max'', lib_round2 lib (lib_max lib s)),
      (''25%'', lib_round2 lib (lib_quantile lib s (1 / 4))),
      (''50%'', lib_round2 lib (lib_quantile lib s (1 / 2))),
      (''75%'', lib_round2 lib (lib_quantile lib s (3 / 4)))]"

definition nan_stats :: "(string \<times> pyval) list" where
  "nan_stats =
     [(''count'', NaNV), (''mean'', NaNV), (''median'', NaNV), (''std'', NaNV), (''min'', NaNV),
      (''max'', NaNV), (''25%'', NaNV), (''50%'', NaNV), (''75%'', NaNV)]"

text \<open>The inner loop over the nutrients, and the outer loop over the categories.\<close>

definition compare_one ::
  "library \<Rightarrow> dataframe \<Rightarrow> string list \<Rightarrow> (string \<times> (string \<times> pyval) list) list" where
  "compare_one lib df nutrients =
     foldl (\<lambda>d nutrient.
              AList.update nutrient
                (if nutrient \<in> set (columns df) then nine_stats lib (column df nutrient)
                 else nan_stats) d)
       [] nutrients"

type_synonym comparison = "(string \<times> (string \<times> (string \<times> pyval) list) list) list"

definition compare_all ::
  "library \<Rightarrow> (string \<times> dataframe) list \<Rightarrow> string list \<Rightarrow> comparison" where
  "compare_all lib ds nutrients =
     foldl (\<lambda>comparison (category, df).
              AList.update category (compare_one lib df nutrients) comparison)
       [] ds"

text \<open>
  \<^verbatim>\<open>compare_datasets\<close>: with fewer than two entries in \<^verbatim>\<open>self.datasets\<close> it prints a line
  and returns \<^verbatim>\<open>None\<close>.
\<close>

definition compare_datasets ::
  "library \<Rightarrow> string list option \<Rightarrow> processor \<Rightarrow> comparison option result \<times> processor" where
  "compare_datasets lib nutrients s =
     (if length (datasets s) < 2 then
        (Inr ([''Need at least 2 datasets to compare.''], None), s)
      else
        (let ns = (case nutrients of
                     None \<Rightarrow> common_columns (map (\<lambda>(c, df). columns df) (datasets s))
                   | Some ns \<Rightarrow> ns) in
         (Inr ([], Some (compare_all lib (datasets s) ns)), s)))"

text \<open>
  The nutrient set a comparison works on: the caller's list, or else the intersection of the
  column sets of all registered frames.
\<close>

definition nutrient_set :: "string list option \<Rightarrow> processor \<Rightarrow> string set" where
  "nutrient_set nutrients s =
     (case nutrients of
        Some ns \<Rightarrow> set ns
      | None \<Rightarrow> (\<Inter>(c, df) \<in> set (datasets s). set (columns df)))"

section \<open>A library in exact arithmetic\<close>

text \<open>
  One library to run the examples with: the aggregates computed in exact arithmetic. Each
  skips the missing cells; a statistic that is undefined (no cell left, or fewer than two for
  the standard deviation) is NaN. Every column is taken as a column of doubles, so every
  statistic is a float. It is not the library of the program, from which it differs wherever
  doubles round or overflow and 64-bit integers wrap around; no theorem about the engine
  depends on it, the examples apart.
\<close>

definition exact_sum :: "real option list \<Rightarrow> pyval" where
  "exact_sum s = FloatV (sum_list (dropna s))"

definition exact_mean :: "real option list \<Rightarrow> pyval" where
  "exact_mean s =
     (let xs = dropna s in
      if xs = [] then NaNV else FloatV (sum_list xs / real (length xs)))"

definition exact_std :: "real option list \<Rightarrow> pyval" where
  "exact_std s =
     (let xs = dropna s; n = length xs in
      if n < 2 then NaNV
      else let m = sum_list xs / real n in
           FloatV (sqrt (sum_list (map (\<lambda>x. (x - m)\<^sup>2) xs) / real (n - 1))))"

definition exact_min :: "real option list \<Rightarrow> pyval" where
  "exact_min s = (let xs = dropna s in if xs = [] then NaNV else FloatV (Min (set xs)))"

definition exact_max :: "real option list \<Rightarrow> pyval" where
  "exact_max s = (let xs = dropna s in if xs = [] then NaNV else FloatV (Max (set xs)))"

text \<open>Quantiles by linear interpolation between the two nearest order statistics.\<close>

definition exact_quantile :: "real option list \<Rightarrow> real \<Rightarrow> pyval" where
  "exact_quantile s q =
     (let xs = sort (dropna s); n = length xs in
      if n = 0 then NaNV
      else let h = real (n - 1) * q; i = nat \<lfloor>h\<rfloor>; j = min (i + 1) (n - 1) in
           FloatV (xs ! i + (xs ! j - xs ! i) * (h - real i)))"

definition exact_median :: "real option list \<Rightarrow> pyval" where
  "exact_median s =
     (let xs = sort (dropna s); n = length xs in
      if n = 0 then NaNV
      else if odd n then FloatV (xs ! (n div 2))
      else FloatV ((xs ! (n div 2 - 1) + xs ! (n div 2)) / 2))"

text \<open>
  Rounding to the nearest multiple of one hundredth, a tie going to the even one; integers,
  NaN and the infinities are left as they are.
\<close>

definition round_half_even :: "real \<Rightarrow> int" where
  "round_half_even x =
     (let f = \<lfloor>x\<rfloor>; d = x - of_int f in
      if d < 1 / 2 then f else if d > 1 / 2 then f + 1 else if even f then f else f + 1)"

definition nearest_hundredth :: "real \<Rightarrow> real" where
  "nearest_hundredth x = of_int (round_half_even (x * 100)) / 100"

definition exact_round2 :: "pyval \<Rightarrow> pyval" where
  "exact_round2 v = (case v of FloatV x \<Rightarrow> FloatV (nearest_hundredth x) | _ \<Rightarrow> v)"

text \<open>
  The quotient of two finite scalars; a zero divisor gives an infinity or NaN, not an
  exception. The aggregates above return no infinity, so a quotient with one stands as NaN.
\<close>

definition finite_value :: "pyval \<Rightarrow> real option" where
  "finite_value v = (case v of IntV i \<Rightarrow> Some (of_int i) | FloatV x \<Rightarrow> Some x | _ \<Rightarrow> None)"

definition exact_divide :: "pyval \<Rightarrow> pyval \<Rightarrow> pyval" where
  "exact_divide v w =
     (case (finite_value v, finite_value w) of
        (Some x, Some y) \<Rightarrow>
          (if y \<noteq> 0 then FloatV (x / y)
           else if x > 0 then PosInfV else if x < 0 then NegInfV else NaNV)
      | _ \<Rightarrow> NaNV)"

text \<open>The summary table of a frame: for each column its eight statistics.\<close>

definition describe_series :: "real option list \<Rightarrow> (string \<times> pyval) list" where
  "describe_series s =
     [(''count'', FloatV (real (series_count s))),
      (''mean'', exact_mean s),
      (''std'', exact_std s),
      (''min'', exact_min s),
      (''25%'', exact_quantile s (1 / 4)),
      (''50%'', exact_quantile s (1 / 2)),
      (''75%'', exact_quantile s (3 / 4)),
      (''max'', exact_max s)]"

definition exact_describe :: "dataframe \<Rightarrow> (string \<times> (string \<times> pyval) list) list" where
  "exact_describe df = map (\<lambda>c. (c, describe_series (column df c))) (columns df)"

definition exact_library :: library where
  "exact_library =
     \<lparr>lib_sum = exact_sum, lib_mean = exact_mean, lib_median = exact_median,
      lib_std = exact_std, lib_min = exact_min, lib_max = exact_max,
      lib_quantile = exact_quantile, lib_round2 = exact_round2, lib_divide = exact_divide,
      lib_describe = exact_describe\<rparr>"

section \<open>Example tables\<close>

definition calories_table :: dataframe where
  "calories_table =
     \<lparr>columns = [''Calories''],
      rows = [\<lparr>item = ''a'', vals = [(''Calories'', 100)]\<rparr>,
              \<lparr>item = ''b'', vals = [(''Calories'', 300)]\<rparr>,
              \<lparr>item = ''c'', vals = [(''Calories'', 500)]\<rparr>]\<rparr>"

definition gaps_table :: dataframe where
  "gaps_table =
     \<lparr>columns = [''Calories'', ''Fat''],
      rows = [\<lparr>item = ''a'', vals = [(''Calories'', 100), (''Fat'', 1)]\<rparr>,
              \<lparr>item = ''b'', vals = [(''Fat'', 2)]\<rparr>,
              \<lparr>item = ''c'', vals = [(''Calories'', 500), (''Fat'', 3)]\<rparr>]\<rparr>"

definition macro_table :: dataframe where
  "macro_table =
     \<lparr>columns = [''Fat'', ''Protein'', ''Carb''],
      rows = [\<lparr>item = ''x'', vals = [(''Fat'', 2), (''Protein'', 1), (''Carb'', 1)]\<rparr>,
              \<lparr>item = ''y'', vals = [(''Fat'', 4), (''Protein'', 1), (''Carb'', 3)]\<rparr>]\<rparr>"

definition two_categories :: processor where
  "two_categories = register_all [(''food'', gaps_table), (''drinks'', calories_table)] init"

definition macro_engine :: processor where
  "macro_engine = register_all [(''food'', macro_table), (''drinks'', calories_table)] init"

text \<open>A frame that has an index and no column, and an engine that holds it.\<close>

definition bare_table :: dataframe where
  "bare_table = \<lparr>columns = [], rows = [\<lparr>item = ''a'', vals = []\<rparr>]\<rparr>"

definition bare_engine :: processor where
  "bare_engine = register_all [(''food'', macro_table), (''extras'', bare_table)] init"

section \<open>Boolean indexing is filtering\<close>

lemma mask_select: "map snd (filter fst (zip (map p xs) xs)) = filter p xs"
  by (induction xs) auto

lemma between_mask:
  "series_between (map f xs) lo hi =
     map (\<lambda>x. case f x of None \<Rightarrow> False | Some v \<Rightarrow> lo \<le> v \<and> v \<le> hi) xs"
  by (induction xs) (auto simp: series_between_def series_ge_def series_le_def split: option.splits)

lemma bool_index_gt:
  "bool_index df (series_gt (map (\<lambda>r. cell r n) (rows df)) x) =
     df\<lparr>rows := filter (\<lambda>r. case cell r n of None \<Rightarrow> False | Some v \<Rightarrow> v > x) (rows df)\<rparr>"
  using mask_select [of "\<lambda>r. case cell r n of None \<Rightarrow> False | Some v \<Rightarrow> v > x" "rows df"]
  by (simp add: bool_index_def series_gt_def comp_def)

lemma bool_index_lt:
  "bool_index df (series_lt (map (\<lambda>r. cell r n) (rows df)) x) =
     df\<lparr>rows := filter (\<lambda>r. case cell r n of None \<Rightarrow> False | Some v \<Rightarrow> v < x) (rows df)\<rparr>"
  using mask_select [of "\<lambda>r. case cell r n of None \<Rightarrow> False | Some v \<Rightarrow> v < x" "rows df"]
  by (simp add: bool_index_def series_lt_def comp_def)

lemma bool_index_eq:
  "bool_index df (series_eq (map (\<lambda>r. cell r n) (rows df)) x) =
     df\<lparr>rows := filter (\<lambda>r. case cell r n of None \<Rightarrow> False | Some v \<Rightarrow> v = x) (rows df)\<rparr>"
  using mask_select [of "\<lambda>r. case cell r n of None \<Rightarrow> False | Some v \<Rightarrow> v = x" "rows df"]
  by (simp add: bool_index_def series_eq_def comp_def)

lemma bool_index_between:
  "bool_index df (series_between (map (\<lambda>r. cell r n) (rows df)) lo hi) =
     df\<lparr>rows := filter (\<lambda>r. case cell r n of None \<Rightarrow> False | Some v \<Rightarrow> lo \<le> v \<and> v \<le> hi) (rows df)\<rparr>"
  using mask_select [of "\<lambda>r. case cell r n of None \<Rightarrow> False | Some v \<Rightarrow> lo \<le> v \<and> v \<le> hi" "rows df"]
  by (simp add: bool_index_def between_mask)

lemma filter_data_known:
  assumes "n \<in> set (columns df)" and "operand_ok operator value"
  shows "filter_data df n operator value =
           Inr ([], df\<lparr>rows := filter (\<lambda>r. satisfies operator value (cell r n)) (rows df)\<rparr>)"
proof (cases "value")
  case (Scalar x)
  have sat: "(\<lambda>r. satisfies ''>'' (Scalar x) (cell r n)) = (\<lambda>r. case cell r n of None \<Rightarrow> False | Some v \<Rightarrow> v > x)"
            "(\<lambda>r. satisfies ''<'' (Scalar x) (cell r n)) = (\<lambda>r. case cell r n of None \<Rightarrow> False | Some v \<Rightarrow> v < x)"
            "(\<lambda>r. satisfies ''=='' (Scalar x) (cell r n)) = (\<lambda>r. case cell r n of None \<Rightarrow> False | Some v \<Rightarrow> v = x)"
    by (auto simp: satisfies_def fun_eq_iff split: option.splits)
  from assms Scalar have "operator = ''>'' \<or> operator = ''<'' \<or> operator = ''==''"
    by (simp add: operand_ok_def)
  then show ?thesis
    using assms(1) Scalar sat
    by (auto simp: filter_data_def getitem_def column_def compare_with_def bool_index_gt bool_index_lt bool_index_eq)
next
  case (Bounds lo hi)
  have sat: "(\<lambda>r. satisfies ''between'' (Bounds lo hi) (cell r n)) =
             (\<lambda>r. case cell r n of None \<Rightarrow> False | Some v \<Rightarrow> lo \<le> v \<and> v \<le> hi)"
    by (auto simp: satisfies_def fun_eq_iff split: option.splits)
  from assms Bounds have "operator = ''between''" by (simp add: operand_ok_def)
  then show ?thesis
    using assms(1) Bounds sat
    by (simp add: filter_data_def getitem_def column_def pair_of_def bool_index_between)
qed

section \<open>Registration\<close>

lemma update_fresh: "k \<notin> fst ` set al \<Longrightarrow> AList.update k v al = al @ [(k, v)]"
  by (induction al) auto

lemma register_all_Cons:
  "register_all ((c, df) # calls) s = register_all calls (add_datasets c df s)"
  by (simp add: register_all_def)

lemma register_all_categories:
  "categories (register_all calls s) = categories s @ map fst calls"
  by (induction calls arbitrary: s) (auto simp: register_all_def add_datasets_def)

lemma register_all_map_of:
  "map_of (datasets (register_all calls s)) = map_of (rev calls @ datasets s)"
proof (induction calls arbitrary: s)
  case Nil
  then show ?case by (simp add: register_all_def)
next
  case (Cons a calls)
  obtain c df where a: "a = (c, df)" by (cases a)
  show ?case
    unfolding a register_all_Cons Cons.IH
    by (simp add: add_datasets_def update_conv' map_add_def fun_eq_iff split: option.splits)
qed

lemma register_all_keys:
  "fst ` set (datasets (register_all calls s)) = fst ` set (datasets s) \<union> fst ` set calls"
proof (induction calls arbitrary: s)
  case Nil
  then show ?case by (simp add: register_all_def)
next
  case (Cons a calls)
  obtain c df where a: "a = (c, df)" by (cases a)
  show ?case
    unfolding a register_all_Cons Cons.IH
    by (auto simp: add_datasets_def dom_update)
qed

lemma register_all_distinct:
  "distinct (map fst (datasets s)) \<Longrightarrow> distinct (map fst (datasets (register_all calls s)))"
proof (induction calls arbitrary: s)
  case Nil
  then show ?case by (simp add: register_all_def)
next
  case (Cons a calls)
  obtain c df where a: "a = (c, df)" by (cases a)
  have "distinct (map fst (datasets (add_datasets c df s)))"
    using Cons.prems by (simp add: add_datasets_def distinct_update)
  then show ?case
    unfolding a register_all_Cons by (rule Cons.IH)
qed

lemma init_distinct: "distinct (map fst (datasets (register_all calls init)))"
  by (rule register_all_distinct) (simp add: init_def)

lemma init_keys: "set (map fst (datasets (register_all calls init))) = set (map fst calls)"
  using register_all_keys [of calls init] by (simp add: init_def)

lemma init_categories: "categories (register_all calls init) = map fst calls"
  by (simp add: register_all_categories init_def)

lemma init_length: "length (datasets (register_all calls init)) = card (set (map fst calls))"
proof -
  have "length (datasets (register_all calls init)) = length (map fst (datasets (register_all calls init)))"
    by simp
  also have "\<dots> = card (set (map fst (datasets (register_all calls init))))"
    using init_distinct [of calls] by (rule distinct_card [symmetric])
  also have "\<dots> = card (set (map fst calls))"
    by (simp only: init_keys)
  finally show ?thesis .
qed

section \<open>Dictionaries built by the loops\<close>

lemma foldl_update_map_of:
  "map_of (foldl (\<lambda>d n. AList.update n (f n) d) d0 ns) k =
     (if k \<in> set ns then Some (f k) else map_of d0 k)"
  by (induction ns arbitrary: d0) (auto simp: update_conv')

lemma foldl_update_keys:
  "fst ` set (foldl (\<lambda>d n. AList.update n (f n) d) d0 ns) = fst ` set d0 \<union> set ns"
  by (induction ns arbitrary: d0) (auto simp: dom_update)

lemma foldl_update_distinct:
  "distinct (map fst d0) \<Longrightarrow> distinct (map fst (foldl (\<lambda>d n. AList.update n (f n) d) d0 ns))"
  by (induction ns arbitrary: d0) (auto simp: distinct_update)

lemma compare_one_lookup:
  "map_of (compare_one lib df ns) n =
     (if n \<in> set ns
      then Some (if n \<in> set (columns df) then nine_stats lib (column df n) else nan_stats)
      else None)"
  unfolding compare_one_def by (simp add: foldl_update_map_of)

lemma compare_one_keys: "set (map fst (compare_one lib df ns)) = set ns"
  unfolding compare_one_def using foldl_update_keys [of _ "[]" ns] by simp

lemma compare_one_distinct: "distinct (map fst (compare_one lib df ns))"
  unfolding compare_one_def by (rule foldl_update_distinct) simp

lemma foldl_update_pairs:
  "distinct (map fst acc @ map fst ds) \<Longrightarrow>
   foldl (\<lambda>d (c, df). AList.update c (g df) d) acc ds = acc @ map (\<lambda>(c, df). (c, g df)) ds"
proof (induction ds arbitrary: acc)
  case Nil
  then show ?case by simp
next
  case (Cons a ds)
  obtain c df where a: "a = (c, df)" by (cases a)
  from Cons.prems have fresh: "c \<notin> fst ` set acc" by (auto simp: a)
  from Cons.prems have d: "distinct (map fst (acc @ [(c, v)]) @ map fst ds)" for v
    by (auto simp: a)
  show ?case
    using Cons.IH [OF d] by (simp add: a update_fresh [OF fresh])
qed

lemma compare_all_distinct:
  "distinct (map fst ds) \<Longrightarrow>
   compare_all lib ds ns = map (\<lambda>(c, df). (c, compare_one lib df ns)) ds"
  unfolding compare_all_def
  using foldl_update_pairs [of "[]" ds "\<lambda>df. compare_one lib df ns"] by simp

lemma map_of_map_pairs:
  "distinct (map fst ds) \<Longrightarrow> (c, df) \<in> set ds \<Longrightarrow>
   map_of (map (\<lambda>(c, df). (c, g df)) ds) c = Some (g df)"
  by (induction ds) (auto simp: rev_image_eqI)

lemma common_columns_set:
  "css \<noteq> [] \<Longrightarrow> set (common_columns css) = (\<Inter>cs \<in> set css. set cs)"
  by (cases css) auto

lemma resolved_nutrients:
  assumes "datasets s \<noteq> []"
  shows "set (case nutrients of
                None \<Rightarrow> common_columns (map (\<lambda>(c, df). columns df) (datasets s))
              | Some ns \<Rightarrow> ns) = nutrient_set nutrients s"
proof (cases nutrients)
  case None
  from assms have "map (\<lambda>(c, df). columns df) (datasets s) \<noteq> []" by simp
  from common_columns_set [OF this] show ?thesis
    by (auto simp: None nutrient_set_def)
next
  case (Some ns)
  then show ?thesis by (simp add: nutrient_set_def)
qed

section \<open>Ratios and the statistics loop\<close>

lemma ratios_present:
  assumes "''Fat'' \<in> set (columns df)" "''Protein'' \<in> set (columns df)" "''Carb'' \<in> set (columns df)"
  shows "ratios lib df =
     [(''fat_to_protein'',
         lib_divide lib (lib_sum lib (column df ''Fat'')) (lib_sum lib (column df ''Protein''))),
      (''protein_to_carb'',
         lib_divide lib (lib_sum lib (column df ''Protein'')) (lib_sum lib (column df ''Carb''))),
      (''carb_to_fat'',
         lib_divide lib (lib_sum lib (column df ''Carb'')) (lib_sum lib (column df ''Fat'')))]"
  using assms by (simp add: ratios_def Let_def)

lemma ratios_absent:
  "\<not> {''Fat'', ''Protein'', ''Carb''} \<subseteq> set (columns df) \<Longrightarrow> ratios lib df = []"
  by (auto simp: ratios_def)

lemma stats_loop_ok:
  assumes "distinct (map fst acc @ map fst ds)" and "\<forall>(c, df) \<in> set ds. columns df \<noteq> []"
  shows "\<exists>stats. stats_loop lib ds acc = Inr (acc @ stats) \<and> map fst stats = map fst ds \<and>
           (\<forall>(c, df) \<in> set ds. \<exists>e. map_of stats c = Some e \<and> ratio e = ratios lib df)"
  using assms
proof (induction ds arbitrary: acc)
  case Nil
  then show ?case by simp
next
  case (Cons a ds)
  obtain c df where a: "a = (c, df)" by (cases a)
  let ?e = "\<lparr>describe = lib_describe lib df, ratio = ratios lib df\<rparr>"
  from Cons.prems have fresh: "c \<notin> fst ` set acc" and cnot: "c \<notin> fst ` set ds"
    and cols: "columns df \<noteq> []" by (auto simp: a)
  from Cons.prems have d: "distinct (map fst (acc @ [(c, ?e)]) @ map fst ds)"
    and rest: "\<forall>(c, df) \<in> set ds. columns df \<noteq> []" by (auto simp: a)
  from Cons.IH [OF d rest] obtain stats where
    st: "stats_loop lib ds (acc @ [(c, ?e)]) = Inr ((acc @ [(c, ?e)]) @ stats)"
    and ks: "map fst stats = map fst ds"
    and es: "\<forall>(c, df) \<in> set ds. \<exists>e. map_of stats c = Some e \<and> ratio e = ratios lib df"
    by blast
  have run: "stats_loop lib (a # ds) acc = Inr (acc @ ((c, ?e) # stats))"
    using st cols by (simp add: a df_describe_def update_fresh [OF fresh])
  have ks': "map fst ((c, ?e) # stats) = map fst (a # ds)"
    using ks by (simp add: a)
  have es': "\<forall>(c', df') \<in> set (a # ds).
               \<exists>e. map_of ((c, ?e) # stats) c' = Some e \<and> ratio e = ratios lib df'"
  proof (intro ballI)
    fix p assume p: "p \<in> set (a # ds)"
    obtain c' df' where p': "p = (c', df')" by (cases p)
    show "case p of (c', df') \<Rightarrow>
            \<exists>e. map_of ((c, ?e) # stats) c' = Some e \<and> ratio e = ratios lib df'"
    proof (cases "p = a")
      case True
      then show ?thesis by (simp add: a)
    next
      case False
      with p have mem: "(c', df') \<in> set ds" by (simp add: p')
      then have "c' \<noteq> c" using cnot by force
      moreover from es mem have "\<exists>e. map_of stats c' = Some e \<and> ratio e = ratios lib df'"
        by blast
      ultimately show ?thesis by (simp add: p')
    qed
  qed
  from run ks' es' show ?case by blast
qed

text \<open>One frame without a column stops the loop, whatever was collected before.\<close>

lemma stats_loop_refused:
  "(c, df) \<in> set ds \<Longrightarrow> columns df = [] \<Longrightarrow>
   stats_loop lib ds acc = Inl (ValueError ''Cannot describe a DataFrame without columns'')"
proof (induction ds arbitrary: acc)
  case Nil
  then show ?case by simp
next
  case (Cons a ds)
  obtain c' df' where a: "a = (c', df')" by (cases a)
  show ?case
  proof (cases "columns df' = []")
    case True
    then show ?thesis by (simp add: a df_describe_def)
  next
    case False
    with Cons.prems have "(c, df) \<in> set ds" by (auto simp: a)
    from Cons.IH [OF this Cons.prems(2)] False show ?thesis
      by (simp add: a df_describe_def)
  qed
qed

section \<open>The exact library on the example columns\<close>

lemma calories_column: "column calories_table ''Calories'' = [Some 100, Some 300, Some 500]"
  by (simp add: column_def calories_table_def cell_def)

lemma gaps_columns:
  "column gaps_table ''Calories'' = [Some 100, None, Some 500]"
  "column gaps_table ''Fat'' = [Some 1, Some 2, Some 3]"
  by (simp_all add: column_def gaps_table_def cell_def)

lemma macro_columns:
  "column macro_table ''Fat'' = [Some 2, Some 4]"
  "column macro_table ''Protein'' = [Some 1, Some 1]"
  "column macro_table ''Carb'' = [Some 1, Some 3]"
  by (simp_all add: column_def macro_table_def cell_def)

text \<open>Rounding to hundredths moves a number by at most half a hundredth.\<close>

lemma round_half_even_close: "\<bar>of_int (round_half_even y) - y\<bar> \<le> 1 / 2"
proof -
  have "of_int \<lfloor>y\<rfloor> \<le> y" "y < of_int \<lfloor>y\<rfloor> + 1" by linarith+
  then show ?thesis by (auto simp: round_half_even_def Let_def)
qed

lemma nearest_hundredth_close: "\<bar>nearest_hundredth x - x\<bar> \<le> 1 / 200"
proof -
  have "\<bar>of_int (round_half_even (x * 100)) - x * 100\<bar> \<le> 1 / 2"
    by (rule round_half_even_close)
  then show ?thesis by (simp add: nearest_hundredth_def abs_le_iff field_simps)
qed

lemma nearest_hundredth_hundredths: "nearest_hundredth x * 100 \<in> \<int>"
  by (simp add: nearest_hundredth_def)

lemma exact_round2_float:
  "\<exists>y. exact_round2 (FloatV x) = FloatV y \<and> y * 100 \<in> \<int> \<and> \<bar>y - x\<bar> \<le> 1 / 200"
  using nearest_hundredth_hundredths [of x] nearest_hundredth_close [of x]
  by (intro exI [of _ "nearest_hundredth x"]) (simp only: exact_round2_def pyval.case simp_thms)

lemma nearest_hundredth_examples:
  "nearest_hundredth (1 / 3) = 33 / 100" "nearest_hundredth (1 / 8) = 12 / 100"
  "nearest_hundredth (3 / 8) = 38 / 100" "nearest_hundredth (2 / 3) = 67 / 100"
  by (simp_all add: nearest_hundredth_def round_half_even_def Let_def)

lemma nearest_hundredth_fixed:
  "nearest_hundredth 1 = 1" "nearest_hundredth 2 = 2" "nearest_hundredth 3 = 3"
  "nearest_hundredth (3 / 2) = 3 / 2" "nearest_hundredth (5 / 2) = 5 / 2"
  "nearest_hundredth 100 = 100" "nearest_hundredth 200 = 200" "nearest_hundredth 300 = 300"
  "nearest_hundredth 400 = 400" "nearest_hundredth 500 = 500"
  by (simp_all add: nearest_hundredth_def round_half_even_def Let_def)

lemma sqrt_80000_rounded: "nearest_hundredth (sqrt 80000) = 28284 / 100"
proof -
  have eq: "sqrt 80000 * 100 = sqrt 800000000"
  proof -
    have "sqrt 800000000 = sqrt (80000 * 100\<^sup>2)" by simp
    also have "\<dots> = sqrt 80000 * 100" by (simp only: real_sqrt_mult real_sqrt_abs abs_numeral)
    finally show ?thesis by simp
  qed
  have lo: "28284 \<le> sqrt 800000000" by (rule real_le_rsqrt) simp
  have hi: "sqrt 800000000 < 56569 / 2"
    by (rule real_less_lsqrt) (simp_all add: power2_eq_square)
  have fl: "\<lfloor>sqrt 800000000\<rfloor> = 28284" using lo hi by (intro floor_unique) simp_all
  have "round_half_even (sqrt 800000000) = 28284"
    unfolding round_half_even_def Let_def fl using hi by simp
  then show ?thesis unfolding nearest_hundredth_def eq by simp
qed

lemma exact_gaps_calories:
  "nine_stats exact_library [Some 100, None, Some 500] =
     [(''count'', IntV 2), (''mean'', FloatV 300), (''median'', FloatV 300),
      (''std'', FloatV (28284 / 100)), (''min'', FloatV 100), (''max'', FloatV 500),
      (''25%'', FloatV 200), (''50%'', FloatV 300), (''75%'', FloatV 400)]"
proof -
  have std: "exact_std [Some 100, None, Some 500] = FloatV (sqrt 80000)"
    by (simp add: exact_std_def Let_def)
  show ?thesis
    by (simp add: nine_stats_def exact_library_def std exact_round2_def sqrt_80000_rounded
        series_count_def exact_mean_def exact_median_def exact_min_def exact_max_def
        exact_quantile_def Let_def nearest_hundredth_fixed)
qed

lemma exact_gaps_fat:
  "nine_stats exact_library [Some 1, Some 2, Some 3] =
     [(''count'', IntV 3), (''mean'', FloatV 2), (''median'', FloatV 2),
      (''std'', FloatV 1), (''min'', FloatV 1), (''max'', FloatV 3),
      (''25%'', FloatV (3 / 2)), (''50%'', FloatV 2), (''75%'', FloatV (5 / 2))]"
proof -
  have std: "exact_std [Some 1, Some 2, Some 3] = FloatV 1"
    by (simp add: exact_std_def Let_def)
  show ?thesis
    by (simp add: nine_stats_def exact_library_def std exact_round2_def
        series_count_def exact_mean_def exact_median_def exact_min_def exact_max_def
        exact_quantile_def Let_def nearest_hundredth_fixed)
qed

lemma exact_calories:
  "nine_stats exact_library [Some 100, Some 300, Some 500] =
     [(''count'', IntV 3), (''mean'', FloatV 300), (''median'', FloatV 300),
      (''std'', FloatV 200), (''min'', FloatV 100), (''max'', FloatV 500),
      (''25%'', FloatV 200), (''50%'', FloatV 300), (''75%'', FloatV 400)]"
proof -
  have "sqrt 40000 = sqrt (200\<^sup>2)" by simp
  also have "\<dots> = 200" by (simp only: real_sqrt_abs)
  finally have std: "exact_std [Some 100, Some 300, Some 500] = FloatV 200"
    by (simp add: exact_std_def Let_def)
  show ?thesis
    by (simp add: nine_stats_def exact_library_def std exact_round2_def
        series_count_def exact_mean_def exact_median_def exact_min_def exact_max_def
        exact_quantile_def Let_def nearest_hundredth_fixed)
qed

lemma exact_macro_ratios:
  "exact_divide (exact_sum [Some 2, Some 4]) (exact_sum [Some 1, Some 1]) = FloatV 3"
  "exact_divide (exact_sum [Some 1, Some 1]) (exact_sum [Some 1, Some 3]) = FloatV (1 / 2)"
  "exact_divide (exact_sum [Some 1, Some 3]) (exact_sum [Some 2, Some 4]) = FloatV (2 / 3)"
  by (simp_all add: exact_divide_def exact_sum_def finite_value_def)

lemma show_nat_examples: "show_nat 3 = ''3''" "show_nat 120 = ''120''"
  by code_simp+

text \<open>A pair under a scalar operator, on a column of two cells and on a column of three.\<close>

lemma pair_operand_examples:
  "filter_data macro_table ''Fat'' ''>'' (Bounds 1 5) =
     Inr ([], macro_table\<lparr>rows := [\<lparr>item = ''x'', vals = [(''Fat'', 2), (''Protein'', 1), (''Carb'', 1)]\<rparr>]\<rparr>)"
  "filter_data calories_table ''Calories'' ''>'' (Bounds 200 400) =
     Inl (ValueError ''operands could not be broadcast together with shapes (3,) (2,) '')"
proof -
  show "filter_data macro_table ''Fat'' ''>'' (Bounds 1 5) =
     Inr ([], macro_table\<lparr>rows := [\<lparr>item = ''x'', vals = [(''Fat'', 2), (''Protein'', 1), (''Carb'', 1)]\<rparr>]\<rparr>)"
    by (simp add: filter_data_def getitem_def column_def compare_with_def pair_mask_def
        bool_index_def macro_table_def cell_def)
  have digit: "char_of (51 :: nat) = CHR ''3''" by code_simp
  show "filter_data calories_table ''Calories'' ''>'' (Bounds 200 400) =
     Inl (ValueError ''operands could not be broadcast together with shapes (3,) (2,) '')"
    by (simp add: filter_data_def getitem_def compare_with_def pair_mask_def calories_column
        digit) (simp add: calories_table_def)
qed

section \<open>The claims\<close>

text \<open>
  Claim C1, as the code has it. \<^verbatim>\<open>filter_data\<close> does not fail on an operator outside
  \<open>>\<close>, \<open><\<close>, \<open>==\<close>, \<open>between\<close>: for every table, every nutrient name (a column or not) and
  every operand it prints \<^verbatim>\<open>operator not recognized.\<close> and returns the table it was given,
  unfiltered, as its docstring says.
\<close>

theorem filter_data_unrecognized:
  "operator \<notin> recognized \<Longrightarrow>
   filter_data df nutrient operator value = Inr ([''operator not recognized.''], df)"
  by (simp add: filter_data_def recognized_def)

theorem filter_data_unrecognized_witness:
  "''>='' \<notin> recognized \<and>
   filter_data calories_table ''Fiber'' ''>='' (Scalar 5) =
     Inr ([''operator not recognized.''], calories_table)"
  using filter_data_unrecognized [of "''>=''" calories_table "''Fiber''" "Scalar 5"]
  by (simp add: recognized_def)

text \<open>
  Claim C1 as stated fails: with the operator \<open>>=\<close> on the table with Calories 100, 300, 500
  the call returns normally, and what it returns is the whole table.
\<close>

theorem filter_data_unrecognized_counterexample:
  "''>='' \<notin> recognized \<and>
   filter_data calories_table ''Calories'' ''>='' (Scalar 300) =
     Inr ([''operator not recognized.''], calories_table) \<and>
   \<not> isl (filter_data calories_table ''Calories'' ''>='' (Scalar 300))"
  by (simp add: filter_data_def recognized_def)

text \<open>
  Claim C2, as the code has it. When fewer than two distinct categories have been registered,
  \<^verbatim>\<open>compare_datasets\<close> (with any nutrient argument) raises nothing: it prints
  \<^verbatim>\<open>Need at least 2 datasets to compare.\<close> and returns \<^verbatim>\<open>None\<close>, neither a partial nor an
  empty comparison, and leaves the engine as it was.
\<close>

theorem compare_needs_two:
  "card (set (map fst calls)) < 2 \<Longrightarrow>
   compare_datasets lib nutrients (register_all calls init) =
     (Inr ([''Need at least 2 datasets to compare.''], None), register_all calls init)"
  by (simp add: compare_datasets_def init_length)

theorem compare_needs_two_witness:
  "card (set (map fst [(''food'', calories_table)])) < 2 \<and>
   compare_datasets exact_library None (register_all [(''food'', calories_table)] init) =
     (Inr ([''Need at least 2 datasets to compare.''], None),
      register_all [(''food'', calories_table)] init)"
  using compare_needs_two [of "[(''food'', calories_table)]" exact_library None] by simp

text \<open>
  Claim C2 as stated fails: with the single category \<open>food\<close> registered the comparison returns
  normally, with \<^verbatim>\<open>None\<close>.
\<close>

theorem compare_one_category_counterexample:
  "compare_datasets exact_library None (add_datasets ''food'' calories_table init) =
     (Inr ([''Need at least 2 datasets to compare.''], None),
      add_datasets ''food'' calories_table init) \<and>
   \<not> isl (fst (compare_datasets exact_library None (add_datasets ''food'' calories_table init)))"
  by (simp add: compare_datasets_def add_datasets_def init_def)

text \<open>
  Claim C3. In an engine with at least two registered categories, for every nutrient argument
  and whatever the library computes, the comparison returns a dictionary whose keys are exactly
  the registered categories; under each category the keys are exactly the nutrient set (the
  caller's, or else the intersection of all column sets); each entry has exactly the nine
  fields count, mean, median, std, min, max, 25%, 50%, 75%, in this order. When the category's
  table lacks the column all nine are NaN. Otherwise count is the integer number of cells of
  the column that are not missing, and each other field is the library's statistic of that
  name of the column, rounded by \<^verbatim>\<open>round(x, 2)\<close>.
\<close>

theorem compare_datasets_complete:
  assumes s: "s = register_all calls init"
    and two: "2 \<le> card (set (categories s))"
  shows "\<exists>cmp. compare_datasets lib nutrients s = (Inr ([], Some cmp), s)
           \<and> distinct (map fst cmp) \<and> set (map fst cmp) = set (categories s)
           \<and> (\<forall>(c, df) \<in> set (datasets s).
                 \<exists>inner. map_of cmp c = Some inner
                   \<and> distinct (map fst inner)
                   \<and> set (map fst inner) = nutrient_set nutrients s
                   \<and> (\<forall>n \<in> nutrient_set nutrients s.
                        map_of inner n =
                          Some (if n \<in> set (columns df)
                                then [(''count'', IntV (int (series_count (column df n)))),
                                 (''mean'', lib_round2 lib (lib_mean lib (column df n))),
                                 (''median'', lib_round2 lib (lib_median lib (column df n))),
                                 (''std'', lib_round2 lib (lib_std lib (column df n))),
                                 (''min'', lib_round2 lib (lib_min lib (column df n))),
                                 (''max'', lib_round2 lib (lib_max lib (column df n))),
                                 (''25%'', lib_round2 lib (lib_quantile lib (column df n) (1 / 4))),
                                 (''50%'', lib_round2 lib (lib_quantile lib (column df n) (1 / 2))),
                                 (''75%'', lib_round2 lib (lib_quantile lib (column df n) (3 / 4)))]
                                else [(''count'', NaNV), (''mean'', NaNV), (''median'', NaNV),
                                 (''std'', NaNV), (''min'', NaNV), (''max'', NaNV),
                                 (''25%'', NaNV), (''50%'', NaNV), (''75%'', NaNV)])))"
proof -
  define ns where "ns = (case nutrients of
                None \<Rightarrow> common_columns (map (\<lambda>(c, df). columns df) (datasets s))
              | Some ns \<Rightarrow> ns)"
  define cmp where "cmp = map (\<lambda>(c, df). (c, compare_one lib df ns)) (datasets s)"
  have dist: "distinct (map fst (datasets s))"
    unfolding s by (rule init_distinct)
  have keys: "set (map fst (datasets s)) = set (categories s)"
    unfolding s by (simp only: init_keys init_categories)
  have len: "2 \<le> length (datasets s)"
    using two unfolding s by (simp only: init_length init_categories)
  then have nonempty: "datasets s \<noteq> []" by auto
  have nset: "set ns = nutrient_set nutrients s"
    unfolding ns_def by (rule resolved_nutrients [OF nonempty])
  have run: "compare_datasets lib nutrients s = (Inr ([], Some cmp), s)"
    using len
    by (simp add: compare_datasets_def Let_def cmp_def ns_def compare_all_distinct [OF dist])
  have fst_cmp: "map fst cmp = map fst (datasets s)"
    by (simp add: cmp_def comp_def case_prod_unfold)
  have each: "\<exists>inner. map_of cmp c = Some inner
                          \<and> distinct (map fst inner)
                          \<and> set (map fst inner) = nutrient_set nutrients s
                          \<and> (\<forall>n \<in> nutrient_set nutrients s.
                               map_of inner n =
                                 Some (if n \<in> set (columns df)
                                       then [(''count'', IntV (int (series_count (column df n)))),
                                        (''mean'', lib_round2 lib (lib_mean lib (column df n))),
                                        (''median'', lib_round2 lib (lib_median lib (column df n))),
                                        (''std'', lib_round2 lib (lib_std lib (column df n))),
                                        (''min'', lib_round2 lib (lib_min lib (column df n))),
                                        (''max'', lib_round2 lib (lib_max lib (column df n))),
                                        (''25%'', lib_round2 lib (lib_quantile lib (column df n) (1 / 4))),
                                        (''50%'', lib_round2 lib (lib_quantile lib (column df n) (1 / 2))),
                                        (''75%'', lib_round2 lib (lib_quantile lib (column df n) (3 / 4)))]
                                       else [(''count'', NaNV), (''mean'', NaNV), (''median'', NaNV),
                                        (''std'', NaNV), (''min'', NaNV), (''max'', NaNV),
                                        (''25%'', NaNV), (''50%'', NaNV), (''75%'', NaNV)]))"
    if mem: "(c, df) \<in> set (datasets s)" for c df
  proof (intro exI [of _ "compare_one lib df ns"] conjI ballI)
    show "map_of cmp c = Some (compare_one lib df ns)"
      unfolding cmp_def by (rule map_of_map_pairs [OF dist mem])
    show "distinct (map fst (compare_one lib df ns))"
      by (rule compare_one_distinct)
    show "set (map fst (compare_one lib df ns)) = nutrient_set nutrients s"
      by (simp only: compare_one_keys nset)
  next
    fix n assume "n \<in> nutrient_set nutrients s"
    then have "n \<in> set ns" by (simp only: nset)
    then show "map_of (compare_one lib df ns) n =
                               Some (if n \<in> set (columns df)
                                     then [(''count'', IntV (int (series_count (column df n)))),
                                      (''mean'', lib_round2 lib (lib_mean lib (column df n))),
                                      (''median'', lib_round2 lib (lib_median lib (column df n))),
                                      (''std'', lib_round2 lib (lib_std lib (column df n))),
                                      (''min'', lib_round2 lib (lib_min lib (column df n))),
                                      (''max'', lib_round2 lib (lib_max lib (column df n))),
                                      (''25%'', lib_round2 lib (lib_quantile lib (column df n) (1 / 4))),
                                      (''50%'', lib_round2 lib (lib_quantile lib (column df n) (1 / 2))),
                                      (''75%'', lib_round2 lib (lib_quantile lib (column df n) (3 / 4)))]
                                     else [(''count'', NaNV), (''mean'', NaNV), (''median'', NaNV),
                                      (''std'', NaNV), (''min'', NaNV), (''max'', NaNV),
                                      (''25%'', NaNV), (''50%'', NaNV), (''75%'', NaNV)])"
      by (simp add: compare_one_lookup nine_stats_def nan_stats_def)
  qed
  show ?thesis
  proof (intro exI [of _ cmp] conjI ballI)
    show "compare_datasets lib nutrients s = (Inr ([], Some cmp), s)" by (rule run)
    show "distinct (map fst cmp)" using dist by (simp only: fst_cmp)
    show "set (map fst cmp) = set (categories s)" using keys by (simp only: fst_cmp)
  next
    fix p assume p: "p \<in> set (datasets s)"
    obtain c df where cdf: "p = (c, df)" by (cases p)
    from p have "(c, df) \<in> set (datasets s)" by (simp only: cdf)
    from each [OF this]
    show "case p of (c, df) \<Rightarrow>
            \<exists>inner. map_of cmp c = Some inner
                        \<and> distinct (map fst inner)
                        \<and> set (map fst inner) = nutrient_set nutrients s
                        \<and> (\<forall>n \<in> nutrient_set nutrients s.
                             map_of inner n =
                               Some (if n \<in> set (columns df)
                                     then [(''count'', IntV (int (series_count (column df n)))),
                                      (''mean'', lib_round2 lib (lib_mean lib (column df n))),
                                      (''median'', lib_round2 lib (lib_median lib (column df n))),
                                      (''std'', lib_round2 lib (lib_std lib (column df n))),
                                      (''min'', lib_round2 lib (lib_min lib (column df n))),
                                      (''max'', lib_round2 lib (lib_max lib (column df n))),
                                      (''25%'', lib_round2 lib (lib_quantile lib (column df n) (1 / 4))),
                                      (''50%'', lib_round2 lib (lib_quantile lib (column df n) (1 / 2))),
                                      (''75%'', lib_round2 lib (lib_quantile lib (column df n) (3 / 4)))]
                                     else [(''count'', NaNV), (''mean'', NaNV), (''median'', NaNV),
                                      (''std'', NaNV), (''min'', NaNV), (''max'', NaNV),
                                      (''25%'', NaNV), (''50%'', NaNV), (''75%'', NaNV)]))"
      unfolding cdf prod.case .
  qed
qed

theorem compare_datasets_complete_witness:
  "2 \<le> card (set (categories two_categories))
   \<and> (\<exists>cmp food_part drinks_part.
         compare_datasets exact_library (Some [''Calories'', ''Fat'']) two_categories
           = (Inr ([], Some cmp), two_categories)
         \<and> set (map fst cmp) = {''food'', ''drinks''}
         \<and> map_of cmp ''food'' = Some food_part
         \<and> map_of food_part ''Calories'' =
             Some [(''count'', IntV 2), (''mean'', FloatV 300), (''median'', FloatV 300),
                   (''std'', FloatV (28284 / 100)), (''min'', FloatV 100), (''max'', FloatV 500),
                   (''25%'', FloatV 200), (''50%'', FloatV 300), (''75%'', FloatV 400)]
         \<and> map_of food_part ''Fat'' =
             Some [(''count'', IntV 3), (''mean'', FloatV 2), (''median'', FloatV 2),
                   (''std'', FloatV 1), (''min'', FloatV 1), (''max'', FloatV 3),
                   (''25%'', FloatV (3 / 2)), (''50%'', FloatV 2), (''75%'', FloatV (5 / 2))]
         \<and> map_of cmp ''drinks'' = Some drinks_part
         \<and> map_of drinks_part ''Calories'' =
             Some [(''count'', IntV 3), (''mean'', FloatV 300), (''median'', FloatV 300),
                   (''std'', FloatV 200), (''min'', FloatV 100), (''max'', FloatV 500),
                   (''25%'', FloatV 200), (''50%'', FloatV 300), (''75%'', FloatV 400)]
         \<and> map_of drinks_part ''Fat'' =
             Some [(''count'', NaNV), (''mean'', NaNV), (''median'', NaNV),
                   (''std'', NaNV), (''min'', NaNV), (''max'', NaNV),
                   (''25%'', NaNV), (''50%'', NaNV), (''75%'', NaNV)])"
proof -
  have cats: "categories two_categories = [''food'', ''drinks'']"
    by (simp add: two_categories_def register_all_def add_datasets_def init_def)
  have ds: "datasets two_categories = [(''food'', gaps_table), (''drinks'', calories_table)]"
    by (simp add: two_categories_def register_all_def add_datasets_def init_def)
  have two: "2 \<le> card (set (categories two_categories))"
    by (simp add: cats)
  have ns: "nutrient_set (Some [''Calories'', ''Fat'']) two_categories = {''Calories'', ''Fat''}"
    by (simp add: nutrient_set_def)
  have cols: "set (columns gaps_table) = {''Calories'', ''Fat''}"
    "set (columns calories_table) = {''Calories''}"
    by (simp_all add: gaps_table_def calories_table_def)
  note nine = exact_gaps_calories [unfolded nine_stats_def] exact_gaps_fat [unfolded nine_stats_def]
    exact_calories [unfolded nine_stats_def]
  from compare_datasets_complete [OF two_categories_def two, of exact_library "Some [''Calories'', ''Fat'']"]
  obtain cmp where run: "compare_datasets exact_library (Some [''Calories'', ''Fat'']) two_categories
           = (Inr ([], Some cmp), two_categories)"
    and keys: "set (map fst cmp) = set (categories two_categories)"
    and each: "\<forall>(c, df) \<in> set (datasets two_categories).
                 \<exists>inner. map_of cmp c = Some inner
                   \<and> distinct (map fst inner)
                   \<and> set (map fst inner) = nutrient_set (Some [''Calories'', ''Fat'']) two_categories
                   \<and> (\<forall>n \<in> nutrient_set (Some [''Calories'', ''Fat'']) two_categories.
                        map_of inner n =
                          Some (if n \<in> set (columns df)
                                then [(''count'', IntV (int (series_count (column df n)))),
                                 (''mean'', lib_round2 exact_library (lib_mean exact_library (column df n))),
                                 (''median'', lib_round2 exact_library (lib_median exact_library (column df n))),
                                 (''std'', lib_round2 exact_library (lib_std exact_library (column df n))),
                                 (''min'', lib_round2 exact_library (lib_min exact_library (column df n))),
                                 (''max'', lib_round2 exact_library (lib_max exact_library (column df n))),
                                 (''25%'', lib_round2 exact_library (lib_quantile exact_library (column df n) (1 / 4))),
                                 (''50%'', lib_round2 exact_library (lib_quantile exact_library (column df n) (1 / 2))),
                                 (''75%'', lib_round2 exact_library (lib_quantile exact_library (column df n) (3 / 4)))]
                                else [(''count'', NaNV), (''mean'', NaNV), (''median'', NaNV),
                                 (''std'', NaNV), (''min'', NaNV), (''max'', NaNV),
                                 (''25%'', NaNV), (''50%'', NaNV), (''75%'', NaNV)]))"
    by blast
  from each obtain food_part where food: "map_of cmp ''food'' = Some food_part"
    and food_all: "\<forall>n \<in> {''Calories'', ''Fat''}.
                        map_of food_part n =
                          Some (if n \<in> set (columns gaps_table)
                                then [(''count'', IntV (int (series_count (column gaps_table n)))),
                                 (''mean'', lib_round2 exact_library (lib_mean exact_library (column gaps_table n))),
                                 (''median'', lib_round2 exact_library (lib_median exact_library (column gaps_table n))),
                                 (''std'', lib_round2 exact_library (lib_std exact_library (column gaps_table n))),
                                 (''min'', lib_round2 exact_library (lib_min exact_library (column gaps_table n))),
                                 (''max'', lib_round2 exact_library (lib_max exact_library (column gaps_table n))),
                                 (''25%'', lib_round2 exact_library (lib_quantile exact_library (column gaps_table n) (1 / 4))),
                                 (''50%'', lib_round2 exact_library (lib_quantile exact_library (column gaps_table n) (1 / 2))),
                                 (''75%'', lib_round2 exact_library (lib_quantile exact_library (column gaps_table n) (3 / 4)))]
                                else [(''count'', NaNV), (''mean'', NaNV), (''median'', NaNV),
                                 (''std'', NaNV), (''min'', NaNV), (''max'', NaNV),
                                 (''25%'', NaNV), (''50%'', NaNV), (''75%'', NaNV)])"
    unfolding ds ns by auto
  from each obtain drinks_part where drinks: "map_of cmp ''drinks'' = Some drinks_part"
    and drinks_all: "\<forall>n \<in> {''Calories'', ''Fat''}.
                        map_of drinks_part n =
                          Some (if n \<in> set (columns calories_table)
                                then [(''count'', IntV (int (series_count (column calories_table n)))),
                                 (''mean'', lib_round2 exact_library (lib_mean exact_library (column calories_table n))),
                                 (''median'', lib_round2 exact_library (lib_median exact_library (column calories_table n))),
                                 (''std'', lib_round2 exact_library (lib_std exact_library (column calories_table n))),
                                 (''min'', lib_round2 exact_library (lib_min exact_library (column calories_table n))),
                                 (''max'', lib_round2 exact_library (lib_max exact_library (column calories_table n))),
                                 (''25%'', lib_round2 exact_library (lib_quantile exact_library (column calories_table n) (1 / 4))),
                                 (''50%'', lib_round2 exact_library (lib_quantile exact_library (column calories_table n) (1 / 2))),
                                 (''75%'', lib_round2 exact_library (lib_quantile exact_library (column calories_table n) (3 / 4)))]
                                else [(''count'', NaNV), (''mean'', NaNV), (''median'', NaNV),
                                 (''std'', NaNV), (''min'', NaNV), (''max'', NaNV),
                                 (''25%'', NaNV), (''50%'', NaNV), (''75%'', NaNV)])"
    unfolding ds ns by auto
  have f1: "map_of food_part ''Calories'' =
             Some [(''count'', IntV 2), (''mean'', FloatV 300), (''median'', FloatV 300),
                   (''std'', FloatV (28284 / 100)), (''min'', FloatV 100), (''max'', FloatV 500),
                   (''25%'', FloatV 200), (''50%'', FloatV 300), (''75%'', FloatV 400)]"
    using food_all nine(1) by (simp add: cols gaps_columns)
  have f2: "map_of food_part ''Fat'' =
             Some [(''count'', IntV 3), (''mean'', FloatV 2), (''median'', FloatV 2),
                   (''std'', FloatV 1), (''min'', FloatV 1), (''max'', FloatV 3),
                   (''25%'', FloatV (3 / 2)), (''50%'', FloatV 2), (''75%'', FloatV (5 / 2))]"
    using food_all nine(2) by (simp add: cols gaps_columns)
  have d1: "map_of drinks_part ''Calories'' =
             Some [(''count'', IntV 3), (''mean'', FloatV 300), (''median'', FloatV 300),
                   (''std'', FloatV 200), (''min'', FloatV 100), (''max'', FloatV 500),
                   (''25%'', FloatV 200), (''50%'', FloatV 300), (''75%'', FloatV 400)]"
    using drinks_all nine(3) by (simp add: cols calories_column)
  have d2: "map_of drinks_part ''Fat'' =
             Some [(''count'', NaNV), (''mean'', NaNV), (''median'', NaNV),
                   (''std'', NaNV), (''min'', NaNV), (''max'', NaNV),
                   (''25%'', NaNV), (''50%'', NaNV), (''75%'', NaNV)]"
    using drinks_all by (simp add: cols)
  from keys have names: "set (map fst cmp) = {''food'', ''drinks''}" by (simp add: cats)
  show ?thesis
  proof (rule conjI [OF two], rule exI [of _ cmp], rule exI [of _ food_part],
      rule exI [of _ drinks_part], intro conjI)
    show "compare_datasets exact_library (Some [''Calories'', ''Fat'']) two_categories
           = (Inr ([], Some cmp), two_categories)" by (rule run)
  qed (rule names food f1 f2 drinks d1 d2)+
qed

text \<open>
  Claim C4, as the code has it. In an engine whose registered tables each have at least one
  column, for every registered category and whatever the library computes, the ratio
  dictionary of the descriptive statistics holds exactly \<open>fat_to_protein\<close>, \<open>protein_to_carb\<close>
  and \<open>carb_to_fat\<close> when the columns Fat, Protein and Carb are all there, each the library's
  quotient of the library's two column sums over all rows, and is empty as soon as one of the
  three columns is absent.
\<close>

theorem ratios_all_or_nothing:
  assumes s: "s = register_all calls init"
    and cols: "\<forall>(c, df) \<in> set (datasets s). columns df \<noteq> []"
  shows "\<exists>stats. calculate_descriptive_stats lib s = (Inr ([], stats), s)
           \<and> map fst stats = map fst (datasets s)
           \<and> (\<forall>(c, df) \<in> set (datasets s).
                 \<exists>e. map_of stats c = Some e \<and>
                   (if {''Fat'', ''Protein'', ''Carb''} \<subseteq> set (columns df)
                    then ratio e =
                      [(''fat_to_protein'',
                          lib_divide lib (lib_sum lib (column df ''Fat''))
                            (lib_sum lib (column df ''Protein''))),
                       (''protein_to_carb'',
                          lib_divide lib (lib_sum lib (column df ''Protein''))
                            (lib_sum lib (column df ''Carb''))),
                       (''carb_to_fat'',
                          lib_divide lib (lib_sum lib (column df ''Carb''))
                            (lib_sum lib (column df ''Fat'')))]
                    else ratio e = []))"
proof -
  have dist: "distinct (map fst [] @ map fst (datasets s))"
    unfolding s using init_distinct [of calls] by simp
  from stats_loop_ok [OF dist cols, of lib] obtain stats where
    st: "stats_loop lib (datasets s) [] = Inr stats"
    and ks: "map fst stats = map fst (datasets s)"
    and es: "\<forall>(c, df) \<in> set (datasets s).
               \<exists>e. map_of stats c = Some e \<and> ratio e = ratios lib df"
    by auto
  have run: "calculate_descriptive_stats lib s = (Inr ([], stats), s)"
    by (simp add: calculate_descriptive_stats_def st)
  have shape: "ratios lib df =
     (if {''Fat'', ''Protein'', ''Carb''} \<subseteq> set (columns df)
      then [(''fat_to_protein'',
                          lib_divide lib (lib_sum lib (column df ''Fat''))
                            (lib_sum lib (column df ''Protein''))),
                       (''protein_to_carb'',
                          lib_divide lib (lib_sum lib (column df ''Protein''))
                            (lib_sum lib (column df ''Carb''))),
                       (''carb_to_fat'',
                          lib_divide lib (lib_sum lib (column df ''Carb''))
                            (lib_sum lib (column df ''Fat'')))]
      else [])" for df
    using ratios_present [of df lib] ratios_absent [of df lib] by auto
  from es have "\<forall>(c, df) \<in> set (datasets s).
                 \<exists>e. map_of stats c = Some e \<and>
                   (if {''Fat'', ''Protein'', ''Carb''} \<subseteq> set (columns df)
                    then ratio e =
                      [(''fat_to_protein'',
                          lib_divide lib (lib_sum lib (column df ''Fat''))
                            (lib_sum lib (column df ''Protein''))),
                       (''protein_to_carb'',
                          lib_divide lib (lib_sum lib (column df ''Protein''))
                            (lib_sum lib (column df ''Carb''))),
                       (''carb_to_fat'',
                          lib_divide lib (lib_sum lib (column df ''Carb''))
                            (lib_sum lib (column df ''Fat'')))]
                    else ratio e = [])"
    by (auto simp: shape split: if_splits)
  with run ks show ?thesis by blast
qed

theorem ratios_all_or_nothing_witness:
  "datasets macro_engine = [(''food'', macro_table), (''drinks'', calories_table)]
   \<and> columns macro_table \<noteq> [] \<and> columns calories_table \<noteq> []
   \<and> (\<exists>stats food_entry drinks_entry.
         calculate_descriptive_stats exact_library macro_engine = (Inr ([], stats), macro_engine)
         \<and> map fst stats = [''food'', ''drinks'']
         \<and> map_of stats ''food'' = Some food_entry
         \<and> ratio food_entry = [(''fat_to_protein'', FloatV 3), (''protein_to_carb'', FloatV (1 / 2)),
                                (''carb_to_fat'', FloatV (2 / 3))]
         \<and> map_of stats ''drinks'' = Some drinks_entry
         \<and> ratio drinks_entry = [])"
proof -
  have ds: "datasets macro_engine = [(''food'', macro_table), (''drinks'', calories_table)]"
    by (simp add: macro_engine_def register_all_def add_datasets_def init_def)
  have nonempty: "columns macro_table \<noteq> []" "columns calories_table \<noteq> []"
    by (simp_all add: macro_table_def calories_table_def)
  have cols: "\<forall>(c, df) \<in> set (datasets macro_engine). columns df \<noteq> []"
    by (simp add: ds nonempty)
  have quotients:
    "lib_divide exact_library (lib_sum exact_library (column macro_table ''Fat''))
       (lib_sum exact_library (column macro_table ''Protein'')) = FloatV 3"
    "lib_divide exact_library (lib_sum exact_library (column macro_table ''Protein''))
       (lib_sum exact_library (column macro_table ''Carb'')) = FloatV (1 / 2)"
    "lib_divide exact_library (lib_sum exact_library (column macro_table ''Carb''))
       (lib_sum exact_library (column macro_table ''Fat'')) = FloatV (2 / 3)"
    using exact_macro_ratios by (simp_all add: exact_library_def macro_columns)
  have has3: "''Fat'' \<in> set (columns macro_table)" "''Protein'' \<in> set (columns macro_table)"
    "''Carb'' \<in> set (columns macro_table)"
    by (simp_all add: macro_table_def)
  from ratios_all_or_nothing [OF macro_engine_def cols, of exact_library]
  obtain stats where
    run: "calculate_descriptive_stats exact_library macro_engine = (Inr ([], stats), macro_engine)"
    and keys: "map fst stats = map fst (datasets macro_engine)"
    and each: "\<forall>(c, df) \<in> set (datasets macro_engine).
                 \<exists>e. map_of stats c = Some e \<and>
                   (if {''Fat'', ''Protein'', ''Carb''} \<subseteq> set (columns df)
                    then ratio e =
                      [(''fat_to_protein'',
                          lib_divide exact_library (lib_sum exact_library (column df ''Fat''))
                            (lib_sum exact_library (column df ''Protein''))),
                       (''protein_to_carb'',
                          lib_divide exact_library (lib_sum exact_library (column df ''Protein''))
                            (lib_sum exact_library (column df ''Carb''))),
                       (''carb_to_fat'',
                          lib_divide exact_library (lib_sum exact_library (column df ''Carb''))
                            (lib_sum exact_library (column df ''Fat'')))]
                    else ratio e = [])"
    by blast
  from each obtain food_entry where food: "map_of stats ''food'' = Some food_entry"
    "ratio food_entry = [(''fat_to_protein'', FloatV 3), (''protein_to_carb'', FloatV (1 / 2)),
                                (''carb_to_fat'', FloatV (2 / 3))]"
    unfolding ds by (auto simp: quotients has3)
  from each obtain drinks_entry where drinks: "map_of stats ''drinks'' = Some drinks_entry"
    "ratio drinks_entry = []"
    unfolding ds by (auto simp: calories_table_def)
  from keys have names: "map fst stats = [''food'', ''drinks'']" by (simp add: ds)
  show ?thesis
  proof (rule conjI [OF ds], rule conjI [OF nonempty(1)], rule conjI [OF nonempty(2)],
      rule exI [of _ stats], rule exI [of _ food_entry], rule exI [of _ drinks_entry],
      intro conjI)
    show "calculate_descriptive_stats exact_library macro_engine = (Inr ([], stats), macro_engine)"
      by (rule run)
  qed (rule names food drinks)+
qed

text \<open>
  Claim C4 as stated fails: with \<open>food\<close> holding the columns Fat, Protein and Carb and a second
  category registered with a table that has no column, the call raises the \<^verbatim>\<open>ValueError\<close> of
  \<^verbatim>\<open>describe()\<close>; no category gets a ratio dictionary, empty or not.
\<close>

theorem ratios_colless_counterexample:
  "datasets bare_engine = [(''food'', macro_table), (''extras'', bare_table)]
   \<and> columns bare_table = []
   \<and> calculate_descriptive_stats exact_library bare_engine =
       (Inl (ValueError ''Cannot describe a DataFrame without columns''), bare_engine)"
  by (simp add: bare_engine_def register_all_def add_datasets_def init_def bare_table_def
      macro_table_def calculate_descriptive_stats_def df_describe_def)

text \<open>
  Claim C5. For every table, every recognised operator and every operand, filtering on a
  nutrient that is not a column of the table fails: the column lookup raises \<^verbatim>\<open>KeyError\<close>
  carrying the nutrient name, and nothing catches it.
\<close>

theorem filter_data_unknown_column:
  "nutrient \<notin> set (columns df) \<Longrightarrow> operator \<in> recognized \<Longrightarrow>
   filter_data df nutrient operator value = Inl (KeyError nutrient)"
  by (auto simp: filter_data_def recognized_def getitem_def)

theorem filter_data_unknown_column_witness:
  "''Fiber'' \<notin> set (columns calories_table) \<and> ''>'' \<in> recognized \<and>
   filter_data calories_table ''Fiber'' ''>'' (Scalar 5) = Inl (KeyError ''Fiber'')"
  using filter_data_unknown_column [of "''Fiber''" calories_table "''>''" "Scalar 5"]
  by (simp add: recognized_def calories_table_def)

text \<open>
  Claim C6, as the code has it. \<^verbatim>\<open>add_datasets\<close> overwrites the table of a category that is
  registered already and appends its name once more: after any sequence of registrations on a
  fresh engine the category list is the sequence of registered names, one per call and in call
  order, while the dictionary holds each name once, bound to the table registered last.
\<close>

theorem register_appends_always:
  "categories (register_all calls init) = map fst calls
   \<and> distinct (map fst (datasets (register_all calls init)))
   \<and> set (map fst (datasets (register_all calls init))) = set (map fst calls)
   \<and> map_of (datasets (register_all calls init)) = map_of (rev calls)"
  using init_categories [of calls] init_distinct [of calls] init_keys [of calls]
    register_all_map_of [of calls init]
  by (simp add: init_def)

text \<open>
  Claim C6 as stated fails: registering \<open>food\<close> twice leaves the name twice in the list.
\<close>

theorem register_twice_counterexample:
  "categories (add_datasets ''food'' calories_table (add_datasets ''food'' calories_table init))
     = [''food'', ''food'']
   \<and> \<not> distinct (categories (add_datasets ''food'' calories_table
                                 (add_datasets ''food'' calories_table init)))"
  by (simp add: add_datasets_def init_def)

text \<open>
  Claim C7. Filtering a column of the table with \<open>between\<close> and the pair (low, high) keeps
  exactly the rows whose value v in that column satisfies low \<le> v \<le> high, both bounds included,
  in their order; when low > high no row is kept, the bounds are not swapped.
\<close>

theorem filter_data_between:
  "nutrient \<in> set (columns df) \<Longrightarrow>
   filter_data df nutrient ''between'' (Bounds low high) =
     Inr ([], df\<lparr>rows := filter (\<lambda>r. case cell r nutrient of None \<Rightarrow> False
                                       | Some v \<Rightarrow> low \<le> v \<and> v \<le> high) (rows df)\<rparr>)
   \<and> (low > high \<longrightarrow>
        filter_data df nutrient ''between'' (Bounds low high) = Inr ([], df\<lparr>rows := []\<rparr>))"
proof -
  assume known: "nutrient \<in> set (columns df)"
  have run: "filter_data df nutrient ''between'' (Bounds low high) =
     Inr ([], df\<lparr>rows := filter (\<lambda>r. case cell r nutrient of None \<Rightarrow> False
                                       | Some v \<Rightarrow> low \<le> v \<and> v \<le> high) (rows df)\<rparr>)"
    using known by (simp add: filter_data_def getitem_def column_def pair_of_def bool_index_between)
  have "filter (\<lambda>r. case cell r nutrient of None \<Rightarrow> False
                                       | Some v \<Rightarrow> low \<le> v \<and> v \<le> high) (rows df) = []"
    if "low > high"
    using that by (auto simp: filter_empty_conv split: option.splits)
  with run show ?thesis by simp
qed

theorem filter_data_between_witness:
  "filter_data calories_table ''Calories'' ''between'' (Bounds 200 400) =
     Inr ([], calories_table\<lparr>rows := [\<lparr>item = ''b'', vals = [(''Calories'', 300)]\<rparr>]\<rparr>)
   \<and> filter_data calories_table ''Calories'' ''between'' (Bounds 100 300) =
     Inr ([], calories_table\<lparr>rows := [\<lparr>item = ''a'', vals = [(''Calories'', 100)]\<rparr>,
                                      \<lparr>item = ''b'', vals = [(''Calories'', 300)]\<rparr>]\<rparr>)
   \<and> filter_data calories_table ''Calories'' ''between'' (Bounds 400 200) =
     Inr ([], calories_table\<lparr>rows := []\<rparr>)"
  using filter_data_between [of "''Calories''" calories_table 200 400]
    filter_data_between [of "''Calories''" calories_table 100 300]
    filter_data_between [of "''Calories''" calories_table 400 200]
  by (simp add: calories_table_def cell_def)

text \<open>
  Claim C8. For every table, every column of it, every recognised operator and every operand
  that fits the operator, a row whose value in the filtered column is missing is not in the
  result.
\<close>

theorem filter_data_excludes_missing:
  assumes "nutrient \<in> set (columns df)" and "operand_ok operator value"
  shows "\<exists>r. filter_data df nutrient operator value = Inr ([], r)
           \<and> (\<forall>rw \<in> set (rows df). cell rw nutrient = None \<longrightarrow> rw \<notin> set (rows r))"
  using filter_data_known [OF assms] by (auto simp: satisfies_def)

theorem filter_data_excludes_missing_witness:
  "''Calories'' \<in> set (columns gaps_table)
   \<and> operand_ok ''between'' (Bounds (- 1000000) 1000000)
   \<and> \<lparr>item = ''b'', vals = [(''Fat'', 2)]\<rparr> \<in> set (rows gaps_table)
   \<and> cell \<lparr>item = ''b'', vals = [(''Fat'', 2)]\<rparr> ''Calories'' = None
   \<and> (\<exists>r. filter_data gaps_table ''Calories'' ''between'' (Bounds (- 1000000) 1000000) = Inr ([], r)
           \<and> \<lparr>item = ''b'', vals = [(''Fat'', 2)]\<rparr> \<notin> set (rows r))"
proof -
  have a: "''Calories'' \<in> set (columns gaps_table)" by (simp add: gaps_table_def)
  have b: "operand_ok ''between'' (Bounds (- 1000000) 1000000)" by (simp add: operand_ok_def)
  have c: "\<lparr>item = ''b'', vals = [(''Fat'', 2)]\<rparr> \<in> set (rows gaps_table)"
    by (simp add: gaps_table_def)
  have d: "cell \<lparr>item = ''b'', vals = [(''Fat'', 2)]\<rparr> ''Calories'' = None"
    by (simp add: cell_def)
  from filter_data_excludes_missing [OF a b] c d a b show ?thesis by blast
qed

text \<open>
  Claim C9. For every table, column, recognised operator and fitting operand, the filter
  returns a table with the same columns whose rows are the rows of the input that satisfy the
  criterion, a subsequence of the input rows; the methods \<^verbatim>\<open>filter_dataset\<close> and
  \<^verbatim>\<open>filter_datasets\<close> leave the engine state, and so every registered table, as it was.
\<close>

theorem filter_data_derived_table:
  assumes "nutrient \<in> set (columns df)" and "operand_ok operator value"
  shows "\<exists>r. filter_data df nutrient operator value = Inr ([], r)
           \<and> columns r = columns df
           \<and> subseq (rows r) (rows df)
           \<and> rows r = filter (\<lambda>rw. satisfies operator value (cell rw nutrient)) (rows df)
           \<and> snd (filter_dataset catergory nutrient operator value s) = s
           \<and> snd (filter_datasets nutrient operator value cats s) = s"
  using filter_data_known [OF assms]
  by (auto simp: filter_dataset_def filter_datasets_def split: option.splits)

theorem filter_data_derived_table_witness:
  "''Calories'' \<in> set (columns calories_table) \<and> operand_ok ''>'' (Scalar 300)
   \<and> (\<exists>r. filter_data calories_table ''Calories'' ''>'' (Scalar 300) = Inr ([], r)
           \<and> columns r = [''Calories'']
           \<and> rows r = [\<lparr>item = ''c'', vals = [(''Calories'', 500)]\<rparr>]
           \<and> subseq (rows r) (rows calories_table)
           \<and> snd (filter_dataset ''food'' ''Calories'' ''>'' (Scalar 300)
                    (add_datasets ''food'' calories_table init))
               = add_datasets ''food'' calories_table init)"
proof -
  have a: "''Calories'' \<in> set (columns calories_table)" by (simp add: calories_table_def)
  have b: "operand_ok ''>'' (Scalar 300)" by (simp add: operand_ok_def)
  from filter_data_derived_table [OF a b, of "''food''" "add_datasets ''food'' calories_table init" None]
  obtain r where r: "filter_data calories_table ''Calories'' ''>'' (Scalar 300) = Inr ([], r)"
    "columns r = columns calories_table" "subseq (rows r) (rows calories_table)"
    "rows r = filter (\<lambda>rw. satisfies ''>'' (Scalar 300) (cell rw ''Calories'')) (rows calories_table)"
    "snd (filter_dataset ''food'' ''Calories'' ''>'' (Scalar 300)
                    (add_datasets ''food'' calories_table init))
               = add_datasets ''food'' calories_table init"
    by blast
  have "columns r = [''Calories'']" using r(2) by (simp add: calories_table_def)
  moreover have "rows r = [\<lparr>item = ''c'', vals = [(''Calories'', 500)]\<rparr>]"
    using r(4) by (simp add: calories_table_def satisfies_def cell_def)
  ultimately show ?thesis using a b r(1,3,5) by blast
qed

text \<open>
  Claim C10. For every engine state and every category name that is not in the category
  list, \<^verbatim>\<open>filter_dataset\<close> raises \<^verbatim>\<open>ValueError\<close> with a message that names the category,
  and the engine state is unchanged.
\<close>

theorem filter_dataset_unknown_category:
  "catergory \<notin> set (categories s) \<Longrightarrow>
   filter_dataset catergory nutrient operator value s =
     (Inl (ValueError (CHR 0x27 # catergory @ CHR 0x27 # '' not found in datasets'')), s)"
  by (simp add: filter_dataset_def)

theorem filter_dataset_unknown_category_witness:
  "''snacks'' \<notin> set (categories (add_datasets ''food'' calories_table init)) \<and>
   filter_dataset ''snacks'' ''Calories'' ''>'' (Scalar 300) (add_datasets ''food'' calories_table init) =
     (Inl (ValueError (CHR 0x27 # ''snacks'' @ CHR 0x27 # '' not found in datasets'')),
      add_datasets ''food'' calories_table init)"
  using filter_dataset_unknown_category
    [of "''snacks''" "add_datasets ''food'' calories_table init" "''Calories''" "''>''" "Scalar 300"]
  by (simp add: add_datasets_def init_def)

end
